theory Spec2Isabelle
  imports Complex_Main
begin

section \<open>Arrays, errors and the external collaborators\<close>

text \<open>
  The development embeds \<^verbatim>\<open>scipy/optimize/_differentiable_functions.py\<close>.
  A point and every other 1-D array is a list of reals, so \<^verbatim>\<open>np.array_equal\<close> on
  two 1-D arrays is equality of lists (same length, same entries). IEEE special values
  (NaN, for which \<^verbatim>\<open>array_equal\<close> is never true, and infinite function values)
  are outside the model; the only infinity is the initial \<^verbatim>\<open>_lowest_f = np.inf\<close>.
  The extra positional arguments \<^verbatim>\<open>args\<close> are a tuple fixed at construction and
  are taken as already applied to the user callables.
\<close>

type_synonym point = "real list"
type_synonym vec = "real list"

datatype error = ValueError | TypeError | AttributeError

definition ebind :: "error + 'a \<Rightarrow> ('a \<Rightarrow> error + 'b) \<Rightarrow> error + 'b" where
  "ebind m k = (case m of Inl e \<Rightarrow> Inl e | Inr a \<Rightarrow> k a)"

text \<open>
  A 2-D array, a sparse matrix and a \<^verbatim>\<open>LinearOperator\<close> are a representation tag
  and the rows of the matrix. A matrix has at least one row or is empty.
\<close>

datatype repr = Dense | Sparse_csr | Sparse_other | LinOp

datatype matrix = Matrix (fmt: repr) (rows: "real list list")

definition ncols :: "real list list \<Rightarrow> nat" where
  "ncols M = (case M of [] \<Rightarrow> 0 | r # _ \<Rightarrow> length r)"

definition shape :: "matrix \<Rightarrow> nat \<times> nat" where
  "shape A = (length (rows A), ncols (rows A))"

definition issparse :: "matrix \<Rightarrow> bool" where
  "issparse A = (fmt A = Sparse_csr \<or> fmt A = Sparse_other)"

definition isLinearOperator :: "matrix \<Rightarrow> bool" where
  "isLinearOperator A = (fmt A = LinOp)"

text \<open>\<^verbatim>\<open>sps.csr_array(A)\<close>: a linear operator is not convertible.\<close>

definition csr_array :: "matrix \<Rightarrow> error + matrix" where
  "csr_array A = (if fmt A = LinOp then Inl TypeError else Inr (Matrix Sparse_csr (rows A)))"

text \<open>\<^verbatim>\<open>sps.csr_array((n, n))\<close>: the empty (all-zero) sparse matrix of a shape.\<close>

definition csr_zeros :: "nat \<Rightarrow> nat \<Rightarrow> matrix" where
  "csr_zeros m n = Matrix Sparse_csr (replicate m (replicate n 0))"

definition toarray :: "matrix \<Rightarrow> matrix" where
  "toarray A = Matrix Dense (rows A)"

text \<open>\<^verbatim>\<open>np.atleast_2d(np.asarray(A))\<close> on a value that is already a 2-D array.\<close>

definition atleast_2d :: "matrix \<Rightarrow> matrix" where
  "atleast_2d A = A"

text \<open>\<^verbatim>\<open>J.dot(x)\<close>: the shapes must agree, otherwise numpy raises ValueError.\<close>

definition dot :: "matrix \<Rightarrow> vec \<Rightarrow> error + vec" where
  "dot A x =
     (if length x = ncols (rows A)
      then Inr (map (\<lambda>r. sum_list (map2 (*) r x)) (rows A))
      else Inl ValueError)"

text \<open>\<^verbatim>\<open>J.T.dot(v)\<close>.\<close>

definition T_dot :: "matrix \<Rightarrow> vec \<Rightarrow> error + vec" where
  "T_dot A v =
     (if length v = length (rows A)
      then Inr (map (\<lambda>j. sum_list (map2 (\<lambda>r c. r ! j * c) (rows A) v)) [0..<ncols (rows A)])
      else Inl ValueError)"

text \<open>
  \<^verbatim>\<open>a - b\<close> on 1-D arrays, with numpy's broadcasting: equal lengths, or one side
  of length one; any other pair of shapes raises ValueError.
\<close>

definition vsub :: "vec \<Rightarrow> vec \<Rightarrow> error + vec" where
  "vsub a b =
     (if length a = length b then Inr (map2 (-) a b)
      else if length a = 1 then Inr (map (\<lambda>y. hd a - y) b)
      else if length b = 1 then Inr (map (\<lambda>y. y - hd b) a)
      else Inl ValueError)"

definition FD_METHODS :: "string list" where
  "FD_METHODS = [''2-point'', ''3-point'', ''cs'']"

text \<open>
  Modelled from the spec: the quasi-Newton update object (\<^verbatim>\<open>HessianUpdateStrategy\<close>
  lives in \<^verbatim>\<open>_hessian_update_strategy.py\<close>, which is not part of the sources at
  hand). The spec gives it the capability set \<^verbatim>\<open>initialize(dimension, kind)\<close>,
  \<^verbatim>\<open>update(\<Delta>x, \<Delta>g)\<close> and a current-matrix query; the object is modelled by the
  calls it has received, in order.
\<close>

record hus =
  initialized :: "(nat \<times> string) list"
  updates :: "(vec \<times> vec) list"

definition initialize :: "hus \<Rightarrow> nat \<Rightarrow> string \<Rightarrow> hus" where
  "initialize h n kind = h\<lparr>initialized := initialized h @ [(n, kind)]\<rparr>"

definition update :: "hus \<Rightarrow> vec \<Rightarrow> vec \<Rightarrow> hus" where
  "update h delta_x delta_g = h\<lparr>updates := updates h @ [(delta_x, delta_g)]\<rparr>"

text \<open>
  What a caller may pass as \<^verbatim>\<open>grad\<close>, \<^verbatim>\<open>jac\<close> or \<^verbatim>\<open>hess\<close>: a callable, a
  string, an update-strategy object, or anything else.
\<close>

datatype 'c arg = Callable 'c | Keyword string | UpdateStrategy hus | OtherObject

definition callable :: "'c arg \<Rightarrow> bool" where
  "callable a = (case a of Callable _ \<Rightarrow> True | _ \<Rightarrow> False)"

definition in_FD_METHODS :: "'c arg \<Rightarrow> bool" where
  "in_FD_METHODS a = (case a of Keyword k \<Rightarrow> k \<in> set FD_METHODS | _ \<Rightarrow> False)"

definition isHessianUpdateStrategy :: "'c arg \<Rightarrow> bool" where
  "isHessianUpdateStrategy a = (case a of UpdateStrategy _ \<Rightarrow> True | _ \<Rightarrow> False)"

text \<open>What \<^verbatim>\<open>self.H\<close> holds: a matrix, or the update-strategy object itself.\<close>

datatype hessian = HMatrix matrix | HStrategy hus

section \<open>LinearVectorFunction\<close>

record linear_vector_function =
  lf_J :: matrix
  lf_sparse_jacobian :: bool
  lf_m :: nat
  lf_n :: nat
  lf_x :: point
  lf_f :: vec
  lf_f_updated :: bool
  lf_v :: vec
  lf_H :: matrix

text \<open>\<^verbatim>\<open>sparse_jacobian\<close> is \<^verbatim>\<open>None\<close>, \<^verbatim>\<open>True\<close> or \<^verbatim>\<open>False\<close>.\<close>

definition lf_normalize :: "matrix \<Rightarrow> bool option \<Rightarrow> error + (matrix \<times> bool)" where
  "lf_normalize A sparse_jacobian =
     (if sparse_jacobian = Some True \<or> (sparse_jacobian = None \<and> issparse A)
      then ebind (csr_array A) (\<lambda>J. Inr (J, True))
      else if issparse A then Inr (toarray A, False)
      else Inr (atleast_2d A, False))"

definition lf_init :: "matrix \<Rightarrow> point \<Rightarrow> bool option \<Rightarrow> error + linear_vector_function" where
  "lf_init A x0 sparse_jacobian =
     ebind (lf_normalize A sparse_jacobian) (\<lambda>(J, sj).
     ebind (dot J x0) (\<lambda>f.
       Inr \<lparr>lf_J = J, lf_sparse_jacobian = sj,
            lf_m = fst (shape J), lf_n = snd (shape J),
            lf_x = x0, lf_f = f, lf_f_updated = True,
            lf_v = replicate (fst (shape J)) 0,
            lf_H = csr_zeros (snd (shape J)) (snd (shape J))\<rparr>))"

definition lf_update_x :: "point \<Rightarrow> linear_vector_function \<Rightarrow> linear_vector_function" where
  "lf_update_x x s = (if x \<noteq> lf_x s then s\<lparr>lf_x := x, lf_f_updated := False\<rparr> else s)"

definition lf_fun :: "point \<Rightarrow> linear_vector_function \<Rightarrow> error + (vec \<times> linear_vector_function)" where
  "lf_fun x s0 =
     (let s = lf_update_x x s0 in
      if \<not> lf_f_updated s
      then ebind (dot (lf_J s) x) (\<lambda>f. Inr (f, s\<lparr>lf_f := f, lf_f_updated := True\<rparr>))
      else Inr (lf_f s, s))"

definition lf_jac :: "point \<Rightarrow> linear_vector_function \<Rightarrow> error + (matrix \<times> linear_vector_function)" where
  "lf_jac x s0 = (let s = lf_update_x x s0 in Inr (lf_J s, s))"

definition lf_hess :: "point \<Rightarrow> vec \<Rightarrow> linear_vector_function \<Rightarrow> error + (matrix \<times> linear_vector_function)" where
  "lf_hess x v s0 = (let s = lf_update_x x s0 in Inr (lf_H s, s\<lparr>lf_v := v\<rparr>))"

text \<open>The public calls of a structural function, and a run of them from construction.\<close>

datatype lf_call = LFun point | LJac point | LHess point vec

fun lf_step :: "lf_call \<Rightarrow> linear_vector_function \<Rightarrow> error + linear_vector_function" where
  "lf_step (LFun x) s = ebind (lf_fun x s) (\<lambda>(_, s'). Inr s')"
| "lf_step (LJac x) s = ebind (lf_jac x s) (\<lambda>(_, s'). Inr s')"
| "lf_step (LHess x v) s = ebind (lf_hess x v s) (\<lambda>(_, s'). Inr s')"

fun lf_run :: "lf_call list \<Rightarrow> linear_vector_function \<Rightarrow> error + linear_vector_function" where
  "lf_run [] s = Inr s"
| "lf_run (c # cs) s = ebind (lf_step c s) (lf_run cs)"

text \<open>
  What holds of a structural function between public calls: the stored Jacobian has the
  entries of \<open>A\<close>, the stored Hessian is the empty sparse matrix, and a valid cached
  value is the product at the stored point.
\<close>

definition lf_inv :: "matrix \<Rightarrow> linear_vector_function \<Rightarrow> bool" where
  "lf_inv A s =
     (rows (lf_J s) = rows A \<and>
      lf_H s = csr_zeros (ncols (rows A)) (ncols (rows A)) \<and>
      (if lf_f_updated s then dot (lf_J s) (lf_x s) = Inr (lf_f s) else True))"

section \<open>The finite-difference routine\<close>

text \<open>
  \<^verbatim>\<open>approx_derivative\<close> lives in \<^verbatim>\<open>_numdiff.py\<close>, which is not part of the sources at
  hand, so it is a parameter of every operation: one view of the routine for each
  place the engines call it from. Each view receives the options the engine passes, the
  callback, the point and the base value \<^verbatim>\<open>f0\<close>; with \<^verbatim>\<open>full_output\<close> it returns
  the derivative and the number of callback evaluations it reports (\<^verbatim>\<open>dct['nfev']\<close>).
  Step sizes, bounds, sparsity groups and workers are passed through unchanged and are
  part of the routine. Modelled from the spec: in linear-operator mode the routine
  builds the operator lazily (the differencing happens per matrix-vector product, when
  the caller applies the operator), so it does not run its callback during the call.
\<close>

record fd_options =
  fd_method :: "string option"
  fd_as_linear_operator :: bool
  fd_full_output :: bool

record numdiff =
  approx_grad :: "fd_options \<Rightarrow> (point \<Rightarrow> real) \<Rightarrow> point \<Rightarrow> real option \<Rightarrow> vec \<times> nat"
  approx_hess :: "fd_options \<Rightarrow> (point \<Rightarrow> vec) \<Rightarrow> point \<Rightarrow> vec option \<Rightarrow> matrix \<times> nat"
  approx_jac :: "fd_options \<Rightarrow> (point \<Rightarrow> vec) \<Rightarrow> point \<Rightarrow> vec option \<Rightarrow> matrix \<times> nat"
  approx_vhess :: "fd_options \<Rightarrow> (point \<Rightarrow> matrix) \<Rightarrow> point \<Rightarrow> vec \<Rightarrow> vec \<Rightarrow> matrix"

definition keyword_of :: "'c arg \<Rightarrow> string option" where
  "keyword_of a = (case a of Keyword k \<Rightarrow> Some k | _ \<Rightarrow> None)"

section \<open>ScalarFunction\<close>

text \<open>
  \<^verbatim>\<open>_ScalarFunctionWrapper\<close> lives in \<^verbatim>\<open>scipy._lib._util\<close>, which is not part of the
  sources at hand: it is the user objective together with the list of the points the
  engine has invoked it at, so that an invocation of the user callable is visible in
  the state.
\<close>

record scalar_function_wrapper =
  fw_f :: "point \<Rightarrow> real"
  fw_calls :: "point list"

definition scalar_function_wrapper_call ::
  "scalar_function_wrapper \<Rightarrow> point \<Rightarrow> real \<times> scalar_function_wrapper" where
  "scalar_function_wrapper_call w x = (fw_f w x, w\<lparr>fw_calls := fw_calls w @ [x]\<rparr>)"

record scalar_grad_wrapper =
  gw_fun :: "point \<Rightarrow> real"
  gw_grad :: "(point \<Rightarrow> vec) arg"
  gw_finite_diff_options :: fd_options
  gw_ngev :: nat
  gw_nfev :: nat

definition scalar_grad_wrapper_call ::
  "numdiff \<Rightarrow> scalar_grad_wrapper \<Rightarrow> point \<Rightarrow> real option
     \<Rightarrow> error + (vec \<times> scalar_grad_wrapper)" where
  "scalar_grad_wrapper_call nd w x f0 =
     (case gw_grad w of
        Callable grad \<Rightarrow> Inr (grad x, w\<lparr>gw_ngev := gw_ngev w + 1\<rparr>)
      | Keyword k \<Rightarrow>
          if k \<in> set FD_METHODS
          then (let (g, nfev) = approx_grad nd (gw_finite_diff_options w) (gw_fun w) x f0
                in Inr (g, w\<lparr>gw_nfev := gw_nfev w + nfev, gw_ngev := gw_ngev w + 1\<rparr>))
          else Inl AttributeError
      | _ \<Rightarrow> Inl AttributeError)"

datatype hess_func = Sparse_callable | Linearoperator_callable | Dense_callable | Fd_hess

record scalar_hess_wrapper =
  hw_hess :: "(point \<Rightarrow> matrix) arg"
  hw_grad :: "(point \<Rightarrow> vec) option"
  hw_finite_diff_options :: fd_options
  hw_ngev :: nat
  hw_nhev :: nat
  hw_H :: "matrix option"
  hw_hess_func :: "hess_func option"

definition scalar_hess_wrapper_init ::
  "(point \<Rightarrow> matrix) arg \<Rightarrow> point \<Rightarrow> (point \<Rightarrow> vec) option \<Rightarrow> fd_options
     \<Rightarrow> error + scalar_hess_wrapper" where
  "scalar_hess_wrapper_init hess x0 grad opts =
     (let w = \<lparr>hw_hess = hess, hw_grad = grad, hw_finite_diff_options = opts,
                hw_ngev = 0, hw_nhev = 0, hw_H = None, hw_hess_func = None\<rparr>
      in case hess of
           Callable h \<Rightarrow>
             (let H = h x0; w1 = w\<lparr>hw_nhev := hw_nhev w + 1\<rparr>
              in if issparse H
                 then ebind (csr_array H) (\<lambda>H'.
                        Inr (w1\<lparr>hw_hess_func := Some Sparse_callable, hw_H := Some H'\<rparr>))
                 else if isLinearOperator H
                 then Inr (w1\<lparr>hw_hess_func := Some Linearoperator_callable, hw_H := Some H\<rparr>)
                 else Inr (w1\<lparr>hw_hess_func := Some Dense_callable,
                              hw_H := Some (atleast_2d H)\<rparr>))
         | Keyword k \<Rightarrow>
             if k \<in> set FD_METHODS then Inr (w\<lparr>hw_hess_func := Some Fd_hess\<rparr>) else Inr w
         | _ \<Rightarrow> Inr w)"

definition scalar_hess_wrapper_call ::
  "numdiff \<Rightarrow> scalar_hess_wrapper \<Rightarrow> point \<Rightarrow> vec option
     \<Rightarrow> error + (matrix \<times> scalar_hess_wrapper)" where
  "scalar_hess_wrapper_call nd w x f0 =
     (case hw_hess_func w of
        None \<Rightarrow> Inl TypeError
      | Some Fd_hess \<Rightarrow>
          (case hw_grad w of
             None \<Rightarrow> Inl TypeError
           | Some grad \<Rightarrow>
               (let (H, nfev) = approx_hess nd (hw_finite_diff_options w) grad x f0
                in Inr (H, w\<lparr>hw_H := Some H, hw_ngev := hw_ngev w + nfev\<rparr>)))
      | Some Sparse_callable \<Rightarrow>
          (case hw_hess w of
             Callable h \<Rightarrow>
               ebind (csr_array (h x)) (\<lambda>H.
                 Inr (H, w\<lparr>hw_nhev := hw_nhev w + 1, hw_H := Some H\<rparr>))
           | _ \<Rightarrow> Inl TypeError)
      | Some Dense_callable \<Rightarrow>
          (case hw_hess w of
             Callable h \<Rightarrow>
               (let H = atleast_2d (h x)
                in Inr (H, w\<lparr>hw_nhev := hw_nhev w + 1, hw_H := Some H\<rparr>))
           | _ \<Rightarrow> Inl TypeError)
      | Some Linearoperator_callable \<Rightarrow>
          (case hw_hess w of
             Callable h \<Rightarrow>
               (let H = h x in Inr (H, w\<lparr>hw_nhev := hw_nhev w + 1, hw_H := Some H\<rparr>))
           | _ \<Rightarrow> Inl TypeError))"

text \<open>
  \<^verbatim>\<open>self._wrapped_hess\<close> is a \<^verbatim>\<open>_ScalarHessWrapper\<close>, or the named tuple
  \<^verbatim>\<open>_FakeCounter(ngev, nhev)\<close> of an engine with an update strategy.
\<close>

datatype wrapped_hess = FakeCounter nat nat | HessWrapper scalar_hess_wrapper

text \<open>\<^verbatim>\<open>_lowest_f\<close> starts at \<^verbatim>\<open>np.inf\<close>.\<close>

datatype lowest = Infinity | Finite real

definition less_lowest :: "real \<Rightarrow> lowest \<Rightarrow> bool" where
  "less_lowest fx l = (case l of Infinity \<Rightarrow> True | Finite r \<Rightarrow> fx < r)"

text \<open>
  An attribute that \<^verbatim>\<open>__init__\<close> sets only later (\<^verbatim>\<open>f\<close>, \<^verbatim>\<open>g\<close>, \<^verbatim>\<open>H\<close>,
  \<^verbatim>\<open>_wrapped_hess\<close>) or to \<^verbatim>\<open>None\<close> (\<^verbatim>\<open>x_prev\<close>, \<^verbatim>\<open>g_prev\<close>) is an option.
\<close>

record scalar_function =
  sf_wrapped_fun :: scalar_function_wrapper
  sf_orig_grad :: "(point \<Rightarrow> vec) arg"
  sf_orig_hess :: "(point \<Rightarrow> matrix) arg"
  sf_x :: point
  sf_n :: nat
  sf_f_updated :: bool
  sf_g_updated :: bool
  sf_H_updated :: bool
  sf_lowest_x :: "point option"
  sf_lowest_f :: lowest
  sf_nfev :: nat
  sf_f :: "real option"
  sf_g :: "vec option"
  sf_H :: "hessian option"
  sf_x_prev :: "point option"
  sf_g_prev :: "vec option"
  sf_wrapped_grad :: scalar_grad_wrapper
  sf_wrapped_hess :: "wrapped_hess option"

definition sf_update_fun :: "scalar_function \<Rightarrow> scalar_function" where
  "sf_update_fun s =
     (if \<not> sf_f_updated s
      then (let (fx, w) = scalar_function_wrapper_call (sf_wrapped_fun s) (sf_x s);
                s1 = s\<lparr>sf_wrapped_fun := w, sf_nfev := sf_nfev s + 1\<rparr>;
                s2 = (if less_lowest fx (sf_lowest_f s1)
                      then s1\<lparr>sf_lowest_x := Some (sf_x s1), sf_lowest_f := Finite fx\<rparr>
                      else s1)
            in s2\<lparr>sf_f := Some fx, sf_f_updated := True\<rparr>)
      else s)"

definition sf_update_grad :: "numdiff \<Rightarrow> scalar_function \<Rightarrow> error + scalar_function" where
  "sf_update_grad nd s =
     (if \<not> sf_g_updated s
      then (let s1 = (if in_FD_METHODS (sf_orig_grad s) then sf_update_fun s else s)
            in ebind (scalar_grad_wrapper_call nd (sf_wrapped_grad s1) (sf_x s1) (sf_f s1))
                 (\<lambda>(g, w). Inr (s1\<lparr>sf_wrapped_grad := w, sf_g := Some g,
                                    sf_g_updated := True\<rparr>)))
      else Inr s)"

definition sf_call_wrapped_hess ::
  "numdiff \<Rightarrow> scalar_function \<Rightarrow> vec option \<Rightarrow> error + scalar_function" where
  "sf_call_wrapped_hess nd s f0 =
     (case sf_wrapped_hess s of
        Some (HessWrapper w) \<Rightarrow>
          ebind (scalar_hess_wrapper_call nd w (sf_x s) f0) (\<lambda>(H, w').
            Inr (s\<lparr>sf_wrapped_hess := Some (HessWrapper w'), sf_H := Some (HMatrix H)\<rparr>))
      | Some (FakeCounter _ _) \<Rightarrow> Inl TypeError
      | None \<Rightarrow> Inl AttributeError)"

text \<open>\<^verbatim>\<open>self.H.update(self.x - self.x_prev, self.g - self.g_prev)\<close>.\<close>

definition sf_secant_update :: "scalar_function \<Rightarrow> error + scalar_function" where
  "sf_secant_update s =
     (case sf_H s of
        Some (HStrategy h) \<Rightarrow>
          (case sf_x_prev s of
             None \<Rightarrow> Inl TypeError
           | Some x_prev \<Rightarrow>
               ebind (vsub (sf_x s) x_prev) (\<lambda>delta_x.
                 case (sf_g s, sf_g_prev s) of
                   (Some g, Some g_prev) \<Rightarrow>
                     ebind (vsub g g_prev) (\<lambda>delta_g.
                       Inr (s\<lparr>sf_H := Some (HStrategy (update h delta_x delta_g))\<rparr>))
                 | _ \<Rightarrow> Inl TypeError))
      | _ \<Rightarrow> Inl AttributeError)"

definition sf_update_hess :: "numdiff \<Rightarrow> scalar_function \<Rightarrow> error + scalar_function" where
  "sf_update_hess nd s =
     (if \<not> sf_H_updated s
      then ebind
             (if in_FD_METHODS (sf_orig_hess s)
              then ebind (sf_update_grad nd s) (\<lambda>s1. sf_call_wrapped_hess nd s1 (sf_g s1))
              else if isHessianUpdateStrategy (sf_orig_hess s)
              then ebind (sf_update_grad nd s) sf_secant_update
              else sf_call_wrapped_hess nd s None)
             (\<lambda>s2. Inr (s2\<lparr>sf_H_updated := True\<rparr>))
      else Inr s)"

definition sf_update_x :: "numdiff \<Rightarrow> point \<Rightarrow> scalar_function \<Rightarrow> error + scalar_function" where
  "sf_update_x nd x s =
     (if isHessianUpdateStrategy (sf_orig_hess s)
      then ebind (sf_update_grad nd s) (\<lambda>s1.
             sf_update_hess nd
               (s1\<lparr>sf_x_prev := Some (sf_x s1), sf_g_prev := sf_g s1, sf_x := x,
                    sf_f_updated := False, sf_g_updated := False, sf_H_updated := False\<rparr>))
      else Inr (s\<lparr>sf_x := x, sf_f_updated := False, sf_g_updated := False,
                  sf_H_updated := False\<rparr>))"

definition sf_move :: "numdiff \<Rightarrow> point \<Rightarrow> scalar_function \<Rightarrow> error + scalar_function" where
  "sf_move nd x s = (if x \<noteq> sf_x s then sf_update_x nd x s else Inr s)"

definition attr :: "'a option \<Rightarrow> error + 'a" where
  "attr a = (case a of None \<Rightarrow> Inl AttributeError | Some v \<Rightarrow> Inr v)"

definition sf_fun :: "numdiff \<Rightarrow> point \<Rightarrow> scalar_function \<Rightarrow> error + (real \<times> scalar_function)" where
  "sf_fun nd x s =
     ebind (sf_move nd x s) (\<lambda>s1.
       (let s2 = sf_update_fun s1 in ebind (attr (sf_f s2)) (\<lambda>f. Inr (f, s2))))"

definition sf_grad :: "numdiff \<Rightarrow> point \<Rightarrow> scalar_function \<Rightarrow> error + (vec \<times> scalar_function)" where
  "sf_grad nd x s =
     ebind (sf_move nd x s) (\<lambda>s1.
     ebind (sf_update_grad nd s1) (\<lambda>s2.
     ebind (attr (sf_g s2)) (\<lambda>g. Inr (g, s2))))"

definition sf_hess :: "numdiff \<Rightarrow> point \<Rightarrow> scalar_function \<Rightarrow> error + (hessian \<times> scalar_function)" where
  "sf_hess nd x s =
     ebind (sf_move nd x s) (\<lambda>s1.
     ebind (sf_update_hess nd s1) (\<lambda>s2.
     ebind (attr (sf_H s2)) (\<lambda>H. Inr (H, s2))))"

definition sf_fun_and_grad ::
  "numdiff \<Rightarrow> point \<Rightarrow> scalar_function \<Rightarrow> error + ((real \<times> vec) \<times> scalar_function)" where
  "sf_fun_and_grad nd x s =
     ebind (sf_move nd x s) (\<lambda>s1.
     ebind (sf_update_grad nd (sf_update_fun s1)) (\<lambda>s2.
     ebind (attr (sf_f s2)) (\<lambda>f.
     ebind (attr (sf_g s2)) (\<lambda>g. Inr ((f, g), s2)))))"

text \<open>The counters the engine exposes as properties.\<close>

definition nfev :: "scalar_function \<Rightarrow> nat" where
  "nfev s = sf_nfev s + gw_nfev (sf_wrapped_grad s)"

definition ngev :: "scalar_function \<Rightarrow> nat" where
  "ngev s = gw_ngev (sf_wrapped_grad s)"

definition nhev :: "scalar_function \<Rightarrow> error + nat" where
  "nhev s =
     (case sf_wrapped_hess s of
        None \<Rightarrow> Inl AttributeError
      | Some (FakeCounter _ n) \<Rightarrow> Inr n
      | Some (HessWrapper w) \<Rightarrow> Inr (hw_nhev w))"

definition sf_finite_diff_options ::
  "(point \<Rightarrow> vec) arg \<Rightarrow> (point \<Rightarrow> matrix) arg \<Rightarrow> fd_options" where
  "sf_finite_diff_options grad hess =
     (let o0 = \<lparr>fd_method = None, fd_as_linear_operator = False, fd_full_output = False\<rparr>;
          o1 = (if in_FD_METHODS grad
                then o0\<lparr>fd_method := keyword_of grad, fd_full_output := True\<rparr> else o0)
      in if in_FD_METHODS hess
         then o1\<lparr>fd_method := keyword_of hess, fd_as_linear_operator := True,
                  fd_full_output := True\<rparr>
         else o1)"

definition sf_init_hess ::
  "numdiff \<Rightarrow> point \<Rightarrow> fd_options \<Rightarrow> scalar_function \<Rightarrow> error + scalar_function" where
  "sf_init_hess nd x0 opts s =
     (case sf_orig_hess s of
        UpdateStrategy h \<Rightarrow>
          Inr (s\<lparr>sf_H := Some (HStrategy (initialize h (sf_n s) ''hess'')),
                 sf_H_updated := True, sf_x_prev := None, sf_g_prev := None,
                 sf_wrapped_hess := Some (FakeCounter 0 0)\<rparr>)
      | Callable h \<Rightarrow>
          ebind (scalar_hess_wrapper_init (sf_orig_hess s) x0 None opts) (\<lambda>w.
            Inr (s\<lparr>sf_wrapped_hess := Some (HessWrapper w),
                   sf_H := map_option HMatrix (hw_H w), sf_H_updated := True\<rparr>))
      | Keyword k \<Rightarrow>
          if k \<in> set FD_METHODS
          then ebind (scalar_hess_wrapper_init (sf_orig_hess s) x0
                        (case sf_orig_grad s of Callable gr \<Rightarrow> Some gr | _ \<Rightarrow> None) opts)
                 (\<lambda>w.
               ebind (sf_update_grad nd (s\<lparr>sf_wrapped_hess := Some (HessWrapper w)\<rparr>)) (\<lambda>s1.
               ebind (sf_call_wrapped_hess nd s1 (sf_g s1)) (\<lambda>s2.
                 Inr (s2\<lparr>sf_H_updated := True\<rparr>))))
          else Inr s
      | OtherObject \<Rightarrow> Inr s)"

definition sf_init ::
  "numdiff \<Rightarrow> (point \<Rightarrow> real) \<Rightarrow> point \<Rightarrow> (point \<Rightarrow> vec) arg \<Rightarrow> (point \<Rightarrow> matrix) arg
     \<Rightarrow> error + scalar_function" where
  "sf_init nd fun x0 grad hess =
     (if \<not> callable grad \<and> \<not> in_FD_METHODS grad then Inl ValueError
      else if \<not> (callable hess \<or> in_FD_METHODS hess \<or> isHessianUpdateStrategy hess)
      then Inl ValueError
      else if in_FD_METHODS grad \<and> in_FD_METHODS hess then Inl ValueError
      else (let opts = sf_finite_diff_options grad hess;
                s0 = \<lparr>sf_wrapped_fun = \<lparr>fw_f = fun, fw_calls = []\<rparr>,
                      sf_orig_grad = grad, sf_orig_hess = hess,
                      sf_x = x0, sf_n = length x0,
                      sf_f_updated = False, sf_g_updated = False, sf_H_updated = False,
                      sf_lowest_x = None, sf_lowest_f = Infinity,
                      sf_nfev = 0, sf_f = None, sf_g = None, sf_H = None,
                      sf_x_prev = None, sf_g_prev = None,
                      sf_wrapped_grad = \<lparr>gw_fun = fun, gw_grad = grad,
                        gw_finite_diff_options = opts, gw_ngev = 0, gw_nfev = 0\<rparr>,
                      sf_wrapped_hess = None\<rparr>
            in ebind (sf_update_grad nd (sf_update_fun s0)) (sf_init_hess nd x0 opts)))"

text \<open>The public calls of a scalar engine, and a run of them.\<close>

datatype sf_call = SFun point | SGrad point | SHess point | SFunAndGrad point

fun sf_step :: "numdiff \<Rightarrow> sf_call \<Rightarrow> scalar_function \<Rightarrow> error + scalar_function" where
  "sf_step nd (SFun x) s = ebind (sf_fun nd x s) (\<lambda>(_, s'). Inr s')"
| "sf_step nd (SGrad x) s = ebind (sf_grad nd x s) (\<lambda>(_, s'). Inr s')"
| "sf_step nd (SHess x) s = ebind (sf_hess nd x s) (\<lambda>(_, s'). Inr s')"
| "sf_step nd (SFunAndGrad x) s = ebind (sf_fun_and_grad nd x s) (\<lambda>(_, s'). Inr s')"

fun sf_run :: "numdiff \<Rightarrow> sf_call list \<Rightarrow> scalar_function \<Rightarrow> error + scalar_function" where
  "sf_run nd [] s = Inr s"
| "sf_run nd (c # cs) s = ebind (sf_step nd c s) (sf_run nd cs)"

(*PROPERTIES*)

section \<open>Properties of the structural function\<close>

lemma ebind_Inr: "ebind m k = Inr b \<longleftrightarrow> (\<exists>a. m = Inr a \<and> k a = Inr b)"
  by (cases m) (simp_all add: ebind_def)

lemma lf_normalize_rows: "lf_normalize A sj = Inr (J, b) \<Longrightarrow> rows J = rows A"
  by (auto simp: lf_normalize_def csr_array_def toarray_def atleast_2d_def ebind_Inr
      split: if_splits)

lemma lf_init_inv: "lf_init A x0 sj = Inr s \<Longrightarrow> lf_inv A s"
  by (auto simp: lf_init_def ebind_Inr lf_inv_def shape_def dest!: lf_normalize_rows)

lemma lf_step_inv: "lf_inv A s \<Longrightarrow> lf_step c s = Inr s' \<Longrightarrow> lf_inv A s'"
  by (cases c)
    (auto simp: lf_fun_def lf_jac_def lf_hess_def Let_def ebind_Inr lf_inv_def
      lf_update_x_def split: if_splits)

lemma lf_run_inv: "lf_inv A s \<Longrightarrow> lf_run cs s = Inr s' \<Longrightarrow> lf_inv A s'"
  by (induction cs arbitrary: s) (auto simp: ebind_Inr dest: lf_step_inv)

text \<open>
  Claim C8. A structural function built from \<open>A\<close>, after any run of public calls:
  \<open>fun x\<close> returns the matrix-vector product of \<open>A\<close> and \<open>x\<close> (for \<open>x\<close> of the
  matrix's column count; any other length raises), \<open>jac x\<close> returns a matrix with the
  entries of \<open>A\<close> whatever \<open>x\<close> is, and \<open>hess x v\<close> returns the all-zero sparse
  \<open>n \<times> n\<close> matrix whatever \<open>x\<close> and \<open>v\<close> are.
\<close>

theorem linear_function_results:
  assumes "lf_init A x0 sj = Inr s0" and "lf_run cs s0 = Inr s"
  shows "(length x = ncols (rows A) \<longrightarrow>
            (\<exists>s'. lf_fun x s = Inr (map (\<lambda>r. sum_list (map2 (*) r x)) (rows A), s')))
       \<and> (\<exists>J s'. lf_jac x s = Inr (J, s') \<and> rows J = rows A)
       \<and> (\<exists>s'. lf_hess x v s = Inr (csr_zeros (ncols (rows A)) (ncols (rows A)), s'))"
proof -
  have "lf_inv A s"
    using assms lf_init_inv lf_run_inv by blast
  then show ?thesis
    by (auto simp: lf_fun_def lf_jac_def lf_hess_def Let_def lf_inv_def lf_update_x_def
        dot_def ebind_def split: if_splits)
qed

text \<open>
  The scenario of the specification: \<open>A = [[1,0],[1,0],[0,1]]\<close> and \<open>x = [3,4]\<close>
  give the value \<open>[3,3,4]\<close>, here after two other calls at other points.
\<close>

lemma ex_lf_init:
  "lf_init (Matrix Dense [[1,0],[1,0],[0,1]]) [0,0] None =
     Inr \<lparr>lf_J = Matrix Dense [[1,0],[1,0],[0,1]], lf_sparse_jacobian = False,
          lf_m = 3, lf_n = 2, lf_x = [0,0], lf_f = [0,0,0], lf_f_updated = True,
          lf_v = [0,0,0], lf_H = Matrix Sparse_csr [[0,0],[0,0]]\<rparr>"
  by (simp add: lf_init_def lf_normalize_def issparse_def atleast_2d_def ebind_def dot_def
      ncols_def shape_def csr_zeros_def numeral_2_eq_2 numeral_3_eq_3)

theorem linear_function_results_witness:
  "\<exists>s0 s. lf_init (Matrix Dense [[1,0],[1,0],[0,1]]) [0,0] None = Inr s0
     \<and> lf_run [LJac [1,1], LHess [2,2] [1,1,1]] s0 = Inr s
     \<and> (\<exists>s'. lf_fun [3,4] s = Inr ([3,3,4], s'))
     \<and> (\<exists>J s'. lf_jac [3,4] s = Inr (J, s') \<and> rows J = [[1,0],[1,0],[0,1]])
     \<and> (\<exists>s'. lf_hess [3,4] [1,2,3] s = Inr (Matrix Sparse_csr [[0,0],[0,0]], s'))"
proof -
  let ?A = "Matrix Dense [[1,0],[1,0],[0,1]]"
  obtain s0 where i: "lf_init ?A [0,0] None = Inr s0"
    using ex_lf_init by blast
  obtain s where r: "lf_run [LJac [1,1], LHess [2,2] [1,1,1]] s0 = Inr s"
    by (simp add: ebind_def lf_jac_def lf_hess_def Let_def)
  have n: "ncols (rows ?A) = 2"
    by (simp add: ncols_def)
  have z: "csr_zeros 2 2 = Matrix Sparse_csr [[0,0],[0,0]]"
    by (simp add: csr_zeros_def numeral_2_eq_2)
  have m: "map (\<lambda>r. sum_list (map2 (*) r [3,4::real])) (rows ?A) = [3,3,4]"
    by simp
  note t = linear_function_results [OF i r, of "[3,4]" "[1,2,3]", unfolded n z m]
  from t have a: "\<exists>s'. lf_fun [3,4] s = Inr ([3,3,4], s')"
    by simp
  from t have b: "\<exists>J s'. lf_jac [3,4] s = Inr (J, s') \<and> rows J = [[1,0],[1,0],[0,1]]"
    by simp
  from t have c: "\<exists>s'. lf_hess [3,4] [1,2,3] s = Inr (Matrix Sparse_csr [[0,0],[0,0]], s')"
    by blast
  from i r a b c show ?thesis
    by blast
qed

end
